theory Spec2Isabelle
  imports Complex_Main "HOL-Library.Char_ord" "HOL-Library.List_Lexorder"
    "HOL-Library.Product_Lexorder"
begin

section \<open>Tables\<close>

text \<open>
  The pipeline works on pandas data frames. A numeric cell is an IEEE value: a finite
  number (kept exact, as a rational), one of the two infinities, or NaN, which is also
  pandas' marker of a missing value. A text cell holds a country name or an ISO date as
  read from the CSV files. A row carries its index label and one cell per column name;
  a table lists the columns that exist, in order, and its rows, in order. Cells of a
  row under names that are not columns of its table are never read.
\<close>

datatype num = NaN | NegInf | Fin rat | PosInf

datatype cell = N num | Txt string

abbreviation NA :: cell where
  "NA \<equiv> N NaN"

record row =
  label :: cell
  cells :: "string \<Rightarrow> cell"

record table =
  columns :: "string list"
  rows :: "row list"

datatype error =
    ValueError_empty
  | ValueError_missing "string list"
  | KeyError string
  | TypeError

fun is_ValueError :: "error \<Rightarrow> bool" where
  "is_ValueError ValueError_empty = True"
| "is_ValueError (ValueError_missing cs) = True"
| "is_ValueError (KeyError c) = False"
| "is_ValueError TypeError = False"

definition bind_err :: "error + 'a \<Rightarrow> ('a \<Rightarrow> error + 'b) \<Rightarrow> error + 'b" where
  "bind_err m f = (case m of Inl e \<Rightarrow> Inl e | Inr x \<Rightarrow> f x)"

text \<open>\<open>df.empty\<close>: an axis of length zero.\<close>

definition df_empty :: "table \<Rightarrow> bool" where
  "df_empty df = (rows df = [] \<or> columns df = [])"

text \<open>\<open>df[col]\<close> as a series of cells, one per row; a name that is no column raises.\<close>

definition col_vals :: "string \<Rightarrow> table \<Rightarrow> cell list" where
  "col_vals col df = map (\<lambda>r. cells r col) (rows df)"

definition get_col :: "string \<Rightarrow> table \<Rightarrow> error + cell list" where
  "get_col col df =
     (if col \<in> set (columns df) then Inr (col_vals col df) else Inl (KeyError col))"

section \<open>Validation (data engineering nodes)\<close>

definition key_of :: "string list \<Rightarrow> row \<Rightarrow> cell list" where
  "key_of key_cols r = map (cells r) key_cols"

text \<open>
  \<open>drop_duplicates(subset, keep="last")\<close>: a row is dropped when a later row has the
  same cells in the subset columns (two missing cells count as the same). The validators
  call it after they have checked that the subset columns exist.
\<close>

fun drop_duplicates_last :: "string list \<Rightarrow> row list \<Rightarrow> row list" where
  "drop_duplicates_last key_cols [] = []"
| "drop_duplicates_last key_cols (r # rs) =
     (if key_of key_cols r \<in> key_of key_cols ` set rs then drop_duplicates_last key_cols rs
      else r # drop_duplicates_last key_cols rs)"

text \<open>
  \<open>sort_values(by)\<close>, ascending with missing cells last in each key column. The position
  of a cell in the order is \<open>cell_rank\<close>; pandas refuses (TypeError) to order a key column
  that holds both numbers and text, so the relative place of the two kinds is never used.
  Rows with the same key keep their order here; pandas does not promise an order for them
  when it sorts by one column, and nothing below depends on it.
\<close>

fun cell_rank :: "cell \<Rightarrow> nat \<times> rat \<times> string" where
  "cell_rank (N NegInf) = (0, 0, [])"
| "cell_rank (N (Fin q)) = (1, q, [])"
| "cell_rank (N PosInf) = (2, 0, [])"
| "cell_rank (Txt s) = (3, 0, s)"
| "cell_rank (N NaN) = (4, 0, [])"

fun is_text :: "cell \<Rightarrow> bool" where
  "is_text (Txt s) = True"
| "is_text (N x) = False"

fun is_number :: "cell \<Rightarrow> bool" where
  "is_number (Txt s) = False"
| "is_number (N x) = (x \<noteq> NaN)"

definition mixed :: "cell list \<Rightarrow> bool" where
  "mixed xs = (list_ex is_text xs \<and> list_ex is_number xs)"

definition sort_rank :: "string list \<Rightarrow> row \<Rightarrow> (nat \<times> rat \<times> string) list" where
  "sort_rank by_cols r = map cell_rank (key_of by_cols r)"

fun check_sort_keys :: "string list \<Rightarrow> table \<Rightarrow> error + unit" where
  "check_sort_keys [] df = Inr ()"
| "check_sort_keys (k # ks) df =
     bind_err (get_col k df) (\<lambda>xs.
       if mixed xs then Inl TypeError else check_sort_keys ks df)"

definition sort_values :: "string list \<Rightarrow> table \<Rightarrow> error + table" where
  "sort_values by_cols df =
     bind_err (check_sort_keys by_cols df) (\<lambda>_.
       Inr (df\<lparr>rows := sort_key (sort_rank by_cols) (rows df)\<rparr>))"

text \<open>\<open>reset_index(drop=True)\<close>: the labels become 0, 1, 2, ...\<close>

definition range_label :: "nat \<Rightarrow> cell" where
  "range_label i = N (Fin (of_nat i))"

definition reset_index_drop :: "table \<Rightarrow> table" where
  "reset_index_drop df =
     df\<lparr>rows := map (\<lambda>(i, r). r\<lparr>label := range_label i\<rparr>) (enumerate 0 (rows df))\<rparr>"

definition drop_duplicates :: "string list \<Rightarrow> table \<Rightarrow> table" where
  "drop_duplicates key_cols df = df\<lparr>rows := drop_duplicates_last key_cols (rows df)\<rparr>"

definition load_and_validate_covid :: "table \<Rightarrow> error + table" where
  "load_and_validate_covid df =
     (if df_empty df then Inl ValueError_empty
      else
        let required_cols = [''country'', ''date'', ''total_cases''];
            missing_cols = filter (\<lambda>col. col \<notin> set (columns df)) required_cols
        in if missing_cols \<noteq> [] then Inl (ValueError_missing missing_cols)
           else
             bind_err (sort_values [''country'', ''date'']
                         (drop_duplicates [''country'', ''date''] df))
               (\<lambda>df'. Inr (reset_index_drop df')))"

definition load_and_validate_vaccination :: "table \<Rightarrow> error + table" where
  "load_and_validate_vaccination df =
     (if df_empty df then Inl ValueError_empty
      else
        let required_cols = [''country'', ''date'', ''total_vaccinations''];
            missing_cols = filter (\<lambda>col. col \<notin> set (columns df)) required_cols
        in if missing_cols \<noteq> [] then Inl (ValueError_missing missing_cols)
           else
             bind_err (sort_values [''country'', ''date'']
                         (drop_duplicates [''country'', ''date''] df))
               (\<lambda>df'. Inr (reset_index_drop df')))"

section \<open>Arithmetic on numeric cells\<close>

text \<open>
  Arithmetic on a series holding text raises TypeError. On numbers it follows IEEE 754
  on the special values: a finite nonzero number divided by zero is an infinity, zero
  divided by zero is NaN, NaN propagates. Finite results are exact; rounding, overflow
  and the sign of zero are not modelled.
\<close>

fun as_nums :: "cell list \<Rightarrow> error + num list" where
  "as_nums [] = Inr []"
| "as_nums (N x # xs) = bind_err (as_nums xs) (\<lambda>ys. Inr (x # ys))"
| "as_nums (Txt s # xs) = Inl TypeError"

definition inf_of_sign :: "rat \<Rightarrow> num" where
  "inf_of_sign s = (if s = 0 then NaN else if 0 < s then PosInf else NegInf)"

fun sign_of :: "num \<Rightarrow> rat" where
  "sign_of NaN = 0"
| "sign_of NegInf = - 1"
| "sign_of (Fin a) = sgn a"
| "sign_of PosInf = 1"

fun num_mul :: "num \<Rightarrow> num \<Rightarrow> num" where
  "num_mul NaN y = NaN"
| "num_mul x NaN = NaN"
| "num_mul (Fin a) (Fin b) = Fin (a * b)"
| "num_mul x y = inf_of_sign (sign_of x * sign_of y)"

fun num_div :: "num \<Rightarrow> num \<Rightarrow> num" where
  "num_div NaN y = NaN"
| "num_div x NaN = NaN"
| "num_div (Fin a) (Fin b) = (if b = 0 then inf_of_sign (sgn a) else Fin (a / b))"
| "num_div (Fin a) y = Fin 0"
| "num_div x (Fin b) = inf_of_sign (sign_of x * (if b < 0 then - 1 else 1))"
| "num_div x y = NaN"

fun num_add :: "num \<Rightarrow> num \<Rightarrow> num" where
  "num_add NaN y = NaN"
| "num_add x NaN = NaN"
| "num_add (Fin a) (Fin b) = Fin (a + b)"
| "num_add PosInf NegInf = NaN"
| "num_add NegInf PosInf = NaN"
| "num_add (Fin a) y = y"
| "num_add x y = x"

fun num_neg :: "num \<Rightarrow> num" where
  "num_neg NaN = NaN"
| "num_neg NegInf = PosInf"
| "num_neg (Fin a) = Fin (- a)"
| "num_neg PosInf = NegInf"

definition num_sub :: "num \<Rightarrow> num \<Rightarrow> num" where
  "num_sub x y = num_add x (num_neg y)"

text \<open>\<open>.replace([np.inf, -np.inf], 0)\<close> and \<open>.fillna(0)\<close> on a numeric series.\<close>

definition replace_inf :: "num \<Rightarrow> num" where
  "replace_inf x = (if x = PosInf \<or> x = NegInf then Fin 0 else x)"

definition fillna_num :: "num \<Rightarrow> num \<Rightarrow> num" where
  "fillna_num v x = (if x = NaN then v else x)"

text \<open>
  \<open>Series.median()\<close>: over the values that are not missing; the middle value of the
  sorted values, or the mean of the two middle ones; NaN when nothing is left.
\<close>

definition median_nums :: "num list \<Rightarrow> num" where
  "median_nums xs =
     (let ys = sort_key (\<lambda>x. cell_rank (N x)) (filter (\<lambda>x. x \<noteq> NaN) xs);
          n = length ys
      in if n = 0 then NaN
         else if odd n then ys ! (n div 2)
         else num_div (num_add (ys ! (n div 2 - 1)) (ys ! (n div 2))) (Fin 2))"

definition median :: "cell list \<Rightarrow> error + num" where
  "median xs = bind_err (as_nums xs) (\<lambda>ys. Inr (median_nums ys))"

section \<open>Cleaning nodes\<close>

text \<open>\<open>df[cols].copy()\<close> for names that are all columns of \<open>df\<close>.\<close>

definition select_cols :: "string list \<Rightarrow> table \<Rightarrow> table" where
  "select_cols cols df =
     \<lparr>columns = cols,
      rows = map (\<lambda>r. r\<lparr>cells := (\<lambda>c. if c \<in> set cols then cells r c else NA)\<rparr>) (rows df)\<rparr>"

definition covid_cols :: "string list" where
  "covid_cols = [''country'', ''date'', ''total_cases'', ''new_cases'', ''total_deaths'',
     ''new_deaths'', ''total_cases_per_million'', ''total_deaths_per_million'',
     ''population'', ''population_density'', ''median_age'', ''gdp_per_capita'',
     ''hospital_beds_per_thousand'', ''life_expectancy'', ''human_development_index'']"

definition vacc_cols :: "string list" where
  "vacc_cols = [''country'', ''date'', ''total_vaccinations'', ''people_vaccinated'',
     ''people_fully_vaccinated'', ''total_vaccinations_per_hundred'',
     ''people_vaccinated_per_hundred'', ''people_fully_vaccinated_per_hundred'']"

definition select_important_columns :: "table \<Rightarrow> table \<Rightarrow> table \<times> table" where
  "select_important_columns covid_df vacc_df =
     (let covid_available = filter (\<lambda>col. col \<in> set (columns covid_df)) covid_cols;
          vacc_available = filter (\<lambda>col. col \<in> set (columns vacc_df)) vacc_cols
      in (select_cols covid_available covid_df, select_cols vacc_available vacc_df))"

subsection \<open>Imputation\<close>

text \<open>
  \<open>df[col].fillna(value, inplace=True)\<close>, with the pandas semantics the node was
  written for: the column of the frame itself is filled. A missing fill value (the
  median of a column with no value) fills nothing.
\<close>

definition fillna :: "cell \<Rightarrow> cell \<Rightarrow> cell" where
  "fillna v x = (if x = NA then v else x)"

definition fillna_col :: "string \<Rightarrow> cell \<Rightarrow> table \<Rightarrow> table" where
  "fillna_col col v df =
     df\<lparr>rows := map (\<lambda>r. r\<lparr>cells := (cells r)(col := fillna v (cells r col))\<rparr>) (rows df)\<rparr>"

definition covid_strategies :: "(string \<times> cell) list" where
  "covid_strategies = [(''total_cases'', N (Fin 0)), (''new_cases'', N (Fin 0)),
     (''total_deaths'', N (Fin 0)), (''new_deaths'', N (Fin 0)),
     (''total_cases_per_million'', N (Fin 0)), (''total_deaths_per_million'', N (Fin 0))]"

definition socio_cols :: "string list" where
  "socio_cols = [''population_density'', ''median_age'', ''gdp_per_capita'',
     ''hospital_beds_per_thousand'', ''life_expectancy'', ''human_development_index'']"

fun fill_values :: "(string \<times> cell) list \<Rightarrow> table \<Rightarrow> table" where
  "fill_values [] df = df"
| "fill_values ((col, v) # rest) df =
     fill_values rest (if col \<in> set (columns df) then fillna_col col v df else df)"

fun fill_medians :: "string list \<Rightarrow> table \<Rightarrow> error + table" where
  "fill_medians [] df = Inr df"
| "fill_medians (col # rest) df =
     (if col \<in> set (columns df)
      then bind_err (median (col_vals col df))
             (\<lambda>m. fill_medians rest (fillna_col col (N m) df))
      else fill_medians rest df)"

fun fill_zeros :: "string list \<Rightarrow> table \<Rightarrow> table" where
  "fill_zeros [] df = df"
| "fill_zeros (col # rest) df = fill_zeros rest (fillna_col col (N (Fin 0)) df)"

definition impute_missing_values :: "table \<Rightarrow> table \<Rightarrow> error + table \<times> table" where
  "impute_missing_values covid_df vacc_df =
     bind_err (fill_medians socio_cols (fill_values covid_strategies covid_df))
       (\<lambda>covid_imputed.
          let vacc_fill_cols =
                filter (\<lambda>col. col \<notin> set [''country'', ''date'']) (columns vacc_df)
          in Inr (covid_imputed, fill_zeros vacc_fill_cols vacc_df))"

subsection \<open>Feature engineering\<close>

text \<open>
  \<open>df[col] = series\<close>: an existing column is overwritten, a new one is appended. The
  series is computed from columns of \<open>df\<close> itself and has one cell per row.
\<close>

definition set_col :: "string \<Rightarrow> cell list \<Rightarrow> table \<Rightarrow> table" where
  "set_col col xs df =
     \<lparr>columns = (if col \<in> set (columns df) then columns df else columns df @ [col]),
      rows = map (\<lambda>(r, x). r\<lparr>cells := (cells r)(col := x)\<rparr>) (zip (rows df) xs)\<rparr>"

text \<open>
  \<open>groupby(key)[col].diff()\<close>: every row gets its value minus the value of the previous
  row of the same group, in the order of the table; the first row of a group and the
  rows whose key is missing get NaN. \<open>prev\<close> holds the latest value seen for each key.
\<close>

fun group_diff :: "(cell \<Rightarrow> num option) \<Rightarrow> (cell \<times> num) list \<Rightarrow> num list" where
  "group_diff prev [] = []"
| "group_diff prev ((k, x) # rest) =
     (if k = NA then NaN # group_diff prev rest
      else (case prev k of None \<Rightarrow> NaN | Some p \<Rightarrow> num_sub x p)
             # group_diff (prev(k \<mapsto> x)) rest)"

definition groupby_diff :: "string \<Rightarrow> string \<Rightarrow> table \<Rightarrow> error + num list" where
  "groupby_diff key col df =
     bind_err (get_col key df) (\<lambda>ks.
     bind_err (get_col col df) (\<lambda>xs.
     bind_err (as_nums xs) (\<lambda>vs.
       Inr (group_diff Map.empty (zip ks vs)))))"

text \<open>
  \<open>create_features\<close> adds four columns, in this order; each step below is one assignment
  of the node. The two source columns of a ratio are read first (KeyError), then the
  arithmetic runs (TypeError on text).
\<close>

text \<open>
  1. \<open>death_rate = (total_deaths / total_cases * 100).replace([inf, -inf], 0).fillna(0)\<close>
\<close>

definition add_death_rate :: "table \<Rightarrow> error + table" where
  "add_death_rate covid_features =
     bind_err (get_col ''total_deaths'' covid_features) (\<lambda>deaths.
     bind_err (get_col ''total_cases'' covid_features) (\<lambda>cases.
     bind_err (as_nums deaths) (\<lambda>deaths.
     bind_err (as_nums cases) (\<lambda>cases.
       Inr (set_col ''death_rate''
             (map (\<lambda>(d, c). N (fillna_num (Fin 0)
                                  (replace_inf (num_mul (num_div d c) (Fin 100)))))
                (zip deaths cases))
             covid_features)))))"

text \<open>
  2. \<open>healthcare_capacity_index = (hospital_beds_per_thousand * gdp_per_capita / 10000)
  .fillna(0)\<close>, when the table has both columns.
\<close>

definition add_healthcare_capacity_index :: "table \<Rightarrow> error + table" where
  "add_healthcare_capacity_index covid_features =
     (if ''hospital_beds_per_thousand'' \<in> set (columns covid_features)
         \<and> ''gdp_per_capita'' \<in> set (columns covid_features)
      then
        bind_err (get_col ''hospital_beds_per_thousand'' covid_features) (\<lambda>beds.
        bind_err (get_col ''gdp_per_capita'' covid_features) (\<lambda>gdp.
        bind_err (as_nums beds) (\<lambda>beds.
        bind_err (as_nums gdp) (\<lambda>gdp.
          Inr (set_col ''healthcare_capacity_index''
                (map (\<lambda>(b, g). N (fillna_num (Fin 0)
                                     (num_div (num_mul b g) (Fin 10000))))
                   (zip beds gdp))
                covid_features)))))
      else Inr covid_features)"

text \<open>
  3. \<open>vaccination_speed = groupby("country")["people_vaccinated_per_hundred"].diff()
  .fillna(0)\<close>
\<close>

definition add_vaccination_speed :: "table \<Rightarrow> error + table" where
  "add_vaccination_speed vacc_features =
     bind_err (groupby_diff ''country'' ''people_vaccinated_per_hundred'' vacc_features)
       (\<lambda>speed.
          Inr (set_col ''vaccination_speed''
                (map (\<lambda>x. N (fillna_num (Fin 0) x)) speed) vacc_features))"

text \<open>
  4. \<open>vaccination_efficiency = (people_fully_vaccinated / people_vaccinated)
  .replace([inf, -inf], 0).fillna(0) * 100\<close>
\<close>

definition add_vaccination_efficiency :: "table \<Rightarrow> error + table" where
  "add_vaccination_efficiency vacc_features =
     bind_err (get_col ''people_fully_vaccinated'' vacc_features) (\<lambda>fully.
     bind_err (get_col ''people_vaccinated'' vacc_features) (\<lambda>people.
     bind_err (as_nums fully) (\<lambda>fully.
     bind_err (as_nums people) (\<lambda>people.
       Inr (set_col ''vaccination_efficiency''
             (map (\<lambda>(f, p). N (num_mul (fillna_num (Fin 0) (replace_inf (num_div f p)))
                                  (Fin 100)))
                (zip fully people))
             vacc_features)))))"

definition create_features :: "table \<Rightarrow> table \<Rightarrow> error + table \<times> table" where
  "create_features covid_df vacc_df =
     bind_err (add_death_rate covid_df) (\<lambda>covid_features.
     bind_err (add_healthcare_capacity_index covid_features) (\<lambda>covid_features.
     bind_err (add_vaccination_speed vacc_df) (\<lambda>vacc_features.
     bind_err (add_vaccination_efficiency vacc_features) (\<lambda>vacc_features.
       Inr (covid_features, vacc_features)))))"

subsection \<open>Integration\<close>

text \<open>
  \<open>groupby(key).last().reset_index()\<close>: one row per key that is not missing, keys
  ascending; pandas' \<open>last\<close> takes, column by column, the last cell of the group that is
  not missing. \<open>reset_index\<close> puts the key back as the first column and numbers the rows.
\<close>

definition last_valid :: "cell list \<Rightarrow> cell" where
  "last_valid xs = (case filter (\<lambda>x. x \<noteq> NA) xs of [] \<Rightarrow> NA | y # ys \<Rightarrow> last (y # ys))"

definition group_keys :: "cell list \<Rightarrow> cell list" where
  "group_keys ks = sort_key cell_rank (remdups (filter (\<lambda>k. k \<noteq> NA) ks))"

definition groupby_last_reset :: "string \<Rightarrow> table \<Rightarrow> error + table" where
  "groupby_last_reset key df =
     (if key \<notin> set (columns df) then Inl (KeyError key)
      else
        let others = filter (\<lambda>c. c \<noteq> key) (columns df);
            ks = group_keys (map (\<lambda>r. cells r key) (rows df))
        in Inr \<lparr>columns = key # others,
                rows = map (\<lambda>(i, k).
                  \<lparr>label = range_label i,
                   cells = (\<lambda>c.
                     if c = key then k
                     else if c \<in> set others
                     then last_valid (map (\<lambda>r. cells r c)
                                        (filter (\<lambda>r. cells r key = k) (rows df)))
                     else NA)\<rparr>) (enumerate 0 ks)\<rparr>)"

text \<open>
  \<open>left.merge(right, on=key, how="left", suffixes=(ls, rs))\<close>: the rows of the left
  table in their order, each paired with every right row of the same key, or with
  missing cells when there is none; a name (other than the key) that both tables have
  gets the left suffix on the left column and the right suffix on the right column.
\<close>

definition merge_left ::
    "string \<Rightarrow> string \<Rightarrow> string \<Rightarrow> table \<Rightarrow> table \<Rightarrow> error + table" where
  "merge_left key ls rs left right =
     (if key \<notin> set (columns right) then Inl (KeyError key)
      else if key \<notin> set (columns left) then Inl (KeyError key)
      else
        let rcols = filter (\<lambda>c. c \<noteq> key) (columns right);
            overlap = filter (\<lambda>c. c \<in> set rcols) (columns left);
            lname = (\<lambda>c. if c \<in> set overlap then c @ ls else c);
            rname = (\<lambda>c. if c \<in> set overlap then c @ rs else c);
            joined = (\<lambda>l r. map (\<lambda>c. (lname c, cells l c)) (columns left)
                               @ map (\<lambda>c. (rname c, r c)) rcols);
            pairs = concat (map (\<lambda>l.
                      case filter (\<lambda>r. cells r key = cells l key) (rows right) of
                        [] \<Rightarrow> [joined l (\<lambda>c. NA)]
                      | m # ms \<Rightarrow> map (\<lambda>r. joined l (cells r)) (m # ms)) (rows left))
        in Inr \<lparr>columns = map lname (columns left) @ map rname rcols,
                rows = map (\<lambda>(i, kvs).
                  \<lparr>label = range_label i,
                   cells = (\<lambda>c. case map_of kvs c of Some x \<Rightarrow> x | None \<Rightarrow> NA)\<rparr>)
                  (enumerate 0 pairs)\<rparr>)"

definition integrate_datasets :: "table \<Rightarrow> table \<Rightarrow> error + table" where
  "integrate_datasets covid_df vacc_df =
     bind_err (sort_values [''date''] covid_df) (\<lambda>covid_sorted.
     bind_err (groupby_last_reset ''country'' covid_sorted) (\<lambda>covid_latest.
     bind_err (sort_values [''date''] vacc_df) (\<lambda>vacc_sorted.
     bind_err (groupby_last_reset ''country'' vacc_sorted) (\<lambda>vacc_latest.
       merge_left ''country'' ''_covid'' ''_vacc'' covid_latest vacc_latest))))"

subsection \<open>Model input tables\<close>

text \<open>\<open>dropna()\<close>: a row stays when none of its cells in the table's columns is missing.\<close>

definition dropna :: "table \<Rightarrow> table" where
  "dropna df = df\<lparr>rows := filter (\<lambda>r. \<forall>c \<in> set (columns df). cells r c \<noteq> NA) (rows df)\<rparr>"

definition regression_cols :: "string list" where
  "regression_cols = [''country'', ''gdp_per_capita'', ''hospital_beds_per_thousand'',
     ''population_density'', ''median_age'', ''healthcare_capacity_index'',
     ''people_fully_vaccinated_per_hundred'', ''vaccination_speed'']"

definition classification_cols :: "string list" where
  "classification_cols = [''country'', ''total_deaths_per_million'', ''gdp_per_capita'',
     ''hospital_beds_per_thousand'', ''human_development_index'', ''death_rate'',
     ''healthcare_capacity_index'']"

definition create_ml_datasets :: "table \<Rightarrow> table \<times> table" where
  "create_ml_datasets integrated_df =
     (let regression_data =
            dropna (select_cols
              (filter (\<lambda>col. col \<in> set (columns integrated_df)) regression_cols)
              integrated_df);
          classification_data =
            dropna (select_cols
              (filter (\<lambda>col. col \<in> set (columns integrated_df)) classification_cols)
              integrated_df)
      in (regression_data, classification_data))"

section \<open>The default pipeline up to the feature builder\<close>

text \<open>
  The registry runs the data engineering pipeline and then the cleaning pipeline; the
  nodes are wired by the names of their inputs and outputs. From the two raw tables to
  the outputs of \<open>create_features\<close>: both validators, the column selection, the
  imputation, the feature builder.
\<close>

definition features_of_raw :: "table \<Rightarrow> table \<Rightarrow> error + table \<times> table" where
  "features_of_raw covid_compact_raw vaccination_global_raw =
     bind_err (load_and_validate_covid covid_compact_raw) (\<lambda>covid_compact_validated.
     bind_err (load_and_validate_vaccination vaccination_global_raw)
       (\<lambda>vaccination_global_validated.
     case select_important_columns covid_compact_validated vaccination_global_validated of
       (covid_selected, vacc_selected) \<Rightarrow>
     bind_err (impute_missing_values covid_selected vacc_selected)
       (\<lambda>(covid_imputed, vacc_imputed). create_features covid_imputed vacc_imputed)))"

section \<open>Example tables\<close>

text \<open>A row given by its label and the cells that are present; the others are missing.\<close>

definition row_of :: "nat \<Rightarrow> (string \<times> cell) list \<Rightarrow> row" where
  "row_of i kvs =
     \<lparr>label = range_label i,
      cells = (\<lambda>c. case map_of kvs c of Some x \<Rightarrow> x | None \<Rightarrow> NA)\<rparr>"

text \<open>The cells of a table, row by row, in the order of its columns.\<close>

definition show_rows :: "table \<Rightarrow> cell list list" where
  "show_rows df = map (\<lambda>r. map (cells r) (columns df)) (rows df)"

text \<open>Case data of one country with a repeated (country, date) key.\<close>

definition covid_example :: table where
  "covid_example =
     \<lparr>columns = [''country'', ''date'', ''total_cases'', ''total_deaths''],
      rows = [
        row_of 0 [(''country'', Txt ''X''), (''date'', Txt ''2021-01-01''),
                  (''total_cases'', N (Fin 10)), (''total_deaths'', N (Fin 1))],
        row_of 1 [(''country'', Txt ''X''), (''date'', Txt ''2021-01-01''),
                  (''total_cases'', N (Fin 12)), (''total_deaths'', N (Fin 1))],
        row_of 2 [(''country'', Txt ''X''), (''date'', Txt ''2021-01-02''),
                  (''total_cases'', N (Fin 20)), (''total_deaths'', N (Fin 2))]]\<rparr>"

text \<open>Case data without the required column \<open>total_cases\<close>.\<close>

definition covid_no_cases :: table where
  "covid_no_cases =
     \<lparr>columns = [''country'', ''date''],
      rows = [row_of 0 [(''country'', Txt ''X''), (''date'', Txt ''2021-01-01'')]]\<rparr>"

text \<open>Case data with gaps: a missing count and a missing socio-economic value.\<close>

definition covid_gaps :: table where
  "covid_gaps =
     \<lparr>columns = [''country'', ''date'', ''total_cases'', ''gdp_per_capita''],
      rows = [
        row_of 0 [(''country'', Txt ''A''), (''date'', Txt ''2021-01-01''),
                  (''gdp_per_capita'', N (Fin 10))],
        row_of 1 [(''country'', Txt ''A''), (''date'', Txt ''2021-01-02''),
                  (''total_cases'', N (Fin 5))],
        row_of 2 [(''country'', Txt ''B''), (''date'', Txt ''2021-01-01''),
                  (''total_cases'', N (Fin 7)), (''gdp_per_capita'', N (Fin 30))]]\<rparr>"

text \<open>
  Vaccination data: country Y with 5, 8, 8, 15 people vaccinated per hundred, and a
  country Z in between with nobody vaccinated.
\<close>

definition vacc_example :: table where
  "vacc_example =
     \<lparr>columns = [''country'', ''date'', ''total_vaccinations'', ''people_vaccinated'',
                 ''people_fully_vaccinated'', ''people_vaccinated_per_hundred''],
      rows = [
        row_of 0 [(''country'', Txt ''Y''), (''date'', Txt ''2021-03-01''),
                  (''total_vaccinations'', N (Fin 50)), (''people_vaccinated'', N (Fin 50)),
                  (''people_fully_vaccinated'', N (Fin 0)),
                  (''people_vaccinated_per_hundred'', N (Fin 5))],
        row_of 1 [(''country'', Txt ''Z''), (''date'', Txt ''2021-03-01''),
                  (''total_vaccinations'', N (Fin 0)), (''people_vaccinated'', N (Fin 0)),
                  (''people_fully_vaccinated'', N (Fin 0)),
                  (''people_vaccinated_per_hundred'', N (Fin 0))],
        row_of 2 [(''country'', Txt ''Y''), (''date'', Txt ''2021-03-02''),
                  (''total_vaccinations'', N (Fin 120)), (''people_vaccinated'', N (Fin 80)),
                  (''people_fully_vaccinated'', N (Fin 40)),
                  (''people_vaccinated_per_hundred'', N (Fin 8))],
        row_of 3 [(''country'', Txt ''Y''), (''date'', Txt ''2021-03-03''),
                  (''total_vaccinations'', N (Fin 120)), (''people_vaccinated'', N (Fin 80)),
                  (''people_fully_vaccinated'', N (Fin 40)),
                  (''people_vaccinated_per_hundred'', N (Fin 8))],
        row_of 4 [(''country'', Txt ''Y''), (''date'', Txt ''2021-03-04''),
                  (''total_vaccinations'', N (Fin 225)), (''people_vaccinated'', N (Fin 150)),
                  (''people_fully_vaccinated'', N (Fin 75)),
                  (''people_vaccinated_per_hundred'', N (Fin 15))]]\<rparr>"

text \<open>Vaccination data with a missing count.\<close>

definition vacc_gaps :: table where
  "vacc_gaps =
     \<lparr>columns = [''country'', ''date'', ''total_vaccinations''],
      rows = [
        row_of 0 [(''country'', Txt ''A''), (''date'', Txt ''2021-01-01'')],
        row_of 1 [(''country'', Txt ''A''), (''date'', Txt ''2021-01-02''),
                  (''total_vaccinations'', N (Fin 3))]]\<rparr>"

text \<open>An integrated snapshot: three countries, two of them with missing cells.\<close>

definition snapshot_example :: table where
  "snapshot_example =
     \<lparr>columns = [''country'', ''date_covid'', ''total_deaths_per_million'', ''gdp_per_capita'',
                 ''hospital_beds_per_thousand'', ''death_rate'', ''vaccination_speed''],
      rows = [
        row_of 0 [(''country'', Txt ''P''), (''date_covid'', Txt ''2021-06-30''),
                  (''total_deaths_per_million'', N (Fin 100)), (''gdp_per_capita'', N (Fin 5000)),
                  (''hospital_beds_per_thousand'', N (Fin 2)), (''death_rate'', N (Fin 3)),
                  (''vaccination_speed'', N (Fin 1))],
        row_of 1 [(''country'', Txt ''Q''), (''date_covid'', Txt ''2021-06-30''),
                  (''total_deaths_per_million'', N (Fin 50)),
                  (''hospital_beds_per_thousand'', N (Fin 1)), (''death_rate'', N (Fin 2))],
        row_of 2 [(''country'', Txt ''R''), (''date_covid'', Txt ''2021-06-30''),
                  (''total_deaths_per_million'', N (Fin 10)), (''gdp_per_capita'', N (Fin 7000)),
                  (''hospital_beds_per_thousand'', N (Fin 3)), (''death_rate'', N (Fin 0))]]\<rparr>"



text \<open>Case data without the column \<open>total_deaths\<close>, which no validator requires.\<close>

definition covid_no_deaths :: table where
  "covid_no_deaths =
     \<lparr>columns = [''country'', ''date'', ''total_cases''],
      rows = [
        row_of 0 [(''country'', Txt ''X''), (''date'', Txt ''2021-01-01''),
                  (''total_cases'', N (Fin 10))]]\<rparr>"

text \<open>
  Case data of one country whose latest row has no population, and vaccination data of
  the same country and of one more.
\<close>

definition covid_latest_gap :: table where
  "covid_latest_gap =
     \<lparr>columns = [''country'', ''date'', ''total_cases'', ''population''],
      rows = [
        row_of 0 [(''country'', Txt ''X''), (''date'', Txt ''2021-01-01''),
                  (''total_cases'', N (Fin 10)), (''population'', N (Fin 1000))],
        row_of 1 [(''country'', Txt ''X''), (''date'', Txt ''2021-01-02''),
                  (''total_cases'', N (Fin 20))]]\<rparr>"

definition vacc_latest :: table where
  "vacc_latest =
     \<lparr>columns = [''country'', ''date'', ''total_vaccinations''],
      rows = [
        row_of 0 [(''country'', Txt ''X''), (''date'', Txt ''2021-01-02''),
                  (''total_vaccinations'', N (Fin 5))],
        row_of 1 [(''country'', Txt ''Y''), (''date'', Txt ''2021-01-03''),
                  (''total_vaccinations'', N (Fin 7))]]\<rparr>"

section \<open>Vocabulary of the properties\<close>

text \<open>A table without a missing cell in any of its columns.\<close>

definition no_missing :: "table \<Rightarrow> bool" where
  "no_missing df = (\<forall>r \<in> set (rows df). \<forall>c \<in> set (columns df). cells r c \<noteq> NA)"

text \<open>The number in a numeric cell.\<close>

fun num_of :: "cell \<Rightarrow> num" where
  "num_of (N x) = x"
| "num_of (Txt s) = NaN"



text \<open>
  A row, and a table, after a fill: the label stays, and so does every cell that was
  not missing.
\<close>

definition kept_row :: "row \<Rightarrow> row \<Rightarrow> bool" where
  "kept_row r r' = (label r' = label r \<and> (\<forall>c. cells r c \<noteq> NA \<longrightarrow> cells r' c = cells r c))"

definition kept :: "table \<Rightarrow> table \<Rightarrow> bool" where
  "kept df df' = (columns df' = columns df \<and> list_all2 kept_row (rows df) (rows df'))"

text \<open>
  The vaccination speed of row \<open>i\<close> in the words of the specification: the value of
  \<open>people_vaccinated_per_hundred\<close> in the row minus its value in the previous row of the
  same country, in the order of the table; 0 for the first row of a country, for a row
  without a country, and when the difference does not exist.
\<close>

definition vaccination_speed_spec :: "row list \<Rightarrow> nat \<Rightarrow> num" where
  "vaccination_speed_spec rs i =
     (let r = rs ! i; k = cells r ''country'' in
      if k = NA then Fin 0
      else case filter (\<lambda>p. cells p ''country'' = k) (take i rs) of
             [] \<Rightarrow> Fin 0
           | p # ps \<Rightarrow>
               fillna_num (Fin 0)
                 (num_sub (num_of (cells r ''people_vaccinated_per_hundred''))
                    (num_of (cells (last (p # ps)) ''people_vaccinated_per_hundred''))))"

text \<open>
  The latest value of key \<open>k\<close> in a list of (key, value) pairs, or what \<open>prev\<close> had for it
  before the list.
\<close>

definition prev_of :: "(cell \<Rightarrow> num option) \<Rightarrow> (cell \<times> num) list \<Rightarrow> cell \<Rightarrow> num option" where
  "prev_of prev kvs k =
     (case filter (\<lambda>p. fst p = k) kvs of
        [] \<Rightarrow> prev k
      | p # ps \<Rightarrow> Some (snd (last (p # ps))))"

section \<open>Properties of the validator\<close>








lemma validate_covid_success:
  assumes "load_and_validate_covid df = Inr out"
  shows "out = reset_index_drop
           (df\<lparr>rows := sort_key (sort_rank [''country'', ''date''])
                          (drop_duplicates_last [''country'', ''date''] (rows df))\<rparr>)"
  using assms
  by (auto simp: load_and_validate_covid_def sort_values_def bind_err_def drop_duplicates_def
      Let_def split: if_splits sum.splits)

lemma validate_covid_returns:
  assumes "rows df \<noteq> []"
    and "set [''country'', ''date'', ''total_cases''] \<subseteq> set (columns df)"
    and "\<not> mixed (col_vals ''country'' df)"
    and "\<not> mixed (col_vals ''date'' df)"
  shows "\<exists>out. load_and_validate_covid df = Inr out"
proof -
  have m: "mixed (map f (drop_duplicates_last ks rs)) \<Longrightarrow> mixed (map f rs)" for f ks rs
  proof -
    have "set (drop_duplicates_last ks rs) \<subseteq> set rs"
      by (induction rs) auto
    then show "mixed (map f (drop_duplicates_last ks rs)) \<Longrightarrow> mixed (map f rs)"
      by (auto simp: mixed_def list_ex_iff)
  qed
  from assms(1,2) have "\<not> df_empty df" by (auto simp: df_empty_def)
  with assms m show ?thesis
    by (auto simp: load_and_validate_covid_def sort_values_def bind_err_def drop_duplicates_def
      get_col_def col_vals_def Let_def split: if_splits sum.splits)
qed



text \<open>
  C5. Each Validator fails with a ValueError (the spec's SchemaError) exactly when the
  table has no rows or one of its required columns is absent. The error is the result of
  the Validator, and of the run of the pipeline that called it: no later node runs.
\<close>

theorem validator_schema_error:
  "((\<exists>e. load_and_validate_covid df = Inl e \<and> is_ValueError e) \<longleftrightarrow>
      (rows df = [] \<or> \<not> set [''country'', ''date'', ''total_cases''] \<subseteq> set (columns df))) \<and>
   ((\<exists>e. load_and_validate_vaccination df = Inl e \<and> is_ValueError e) \<longleftrightarrow>
      (rows df = [] \<or>
       \<not> set [''country'', ''date'', ''total_vaccinations''] \<subseteq> set (columns df))) \<and>
   (\<forall>e. load_and_validate_covid df = Inl e \<longrightarrow> features_of_raw df other = Inl e) \<and>
   (\<forall>e validated. load_and_validate_covid other = Inr validated \<longrightarrow>
      load_and_validate_vaccination df = Inl e \<longrightarrow> features_of_raw other df = Inl e)"
proof -
  have a: "(\<exists>e. load_and_validate_covid df = Inl e \<and> is_ValueError e) \<longleftrightarrow>
      (rows df = [] \<or> \<not> set [''country'', ''date'', ''total_cases''] \<subseteq> set (columns df))"
    by (auto simp: load_and_validate_covid_def sort_values_def bind_err_def drop_duplicates_def
        get_col_def df_empty_def Let_def split: if_splits sum.splits)
  have b: "(\<exists>e. load_and_validate_vaccination df = Inl e \<and> is_ValueError e) \<longleftrightarrow>
      (rows df = [] \<or>
       \<not> set [''country'', ''date'', ''total_vaccinations''] \<subseteq> set (columns df))"
    by (auto simp: load_and_validate_vaccination_def sort_values_def bind_err_def
        drop_duplicates_def get_col_def df_empty_def Let_def split: if_splits sum.splits)
  have c: "\<forall>e. load_and_validate_covid df = Inl e \<longrightarrow> features_of_raw df other = Inl e"
    by (simp add: features_of_raw_def bind_err_def)
  have d: "\<forall>e validated. load_and_validate_covid other = Inr validated \<longrightarrow>
      load_and_validate_vaccination df = Inl e \<longrightarrow> features_of_raw other df = Inl e"
    by (simp add: features_of_raw_def bind_err_def)
  from a b c d show ?thesis by blast
qed

theorem validator_schema_error_witness:
  "\<not> set [''country'', ''date'', ''total_cases''] \<subseteq> set (columns covid_no_cases) \<and>
   (\<exists>e. load_and_validate_covid covid_no_cases = Inl e \<and> is_ValueError e \<and>
        features_of_raw covid_no_cases vacc_latest = Inl e) \<and>
   rows covid_example \<noteq> [] \<and>
   set [''country'', ''date'', ''total_cases''] \<subseteq> set (columns covid_example) \<and>
   \<not> (\<exists>e. load_and_validate_covid covid_example = Inl e \<and> is_ValueError e)"
proof -
  have n: "\<not> set [''country'', ''date'', ''total_cases''] \<subseteq> set (columns covid_no_cases)"
    by (simp add: covid_no_cases_def)
  with validator_schema_error [of covid_no_cases vacc_latest]
  have "\<exists>e. load_and_validate_covid covid_no_cases = Inl e \<and> is_ValueError e \<and>
        features_of_raw covid_no_cases vacc_latest = Inl e"
    by blast
  moreover have y: "rows covid_example \<noteq> [] \<and>
      set [''country'', ''date'', ''total_cases''] \<subseteq> set (columns covid_example)"
    by (simp add: covid_example_def)
  moreover from y validator_schema_error [of covid_example vacc_latest]
  have "\<not> (\<exists>e. load_and_validate_covid covid_example = Inl e \<and> is_ValueError e)"
    by blast
  ultimately show ?thesis using n by blast
qed

section \<open>Properties of the imputer\<close>



lemma columns_fillna_col [simp]: "columns (fillna_col col v df) = columns df"
  by (simp add: fillna_col_def)

lemma length_rows_fillna_col [simp]: "length (rows (fillna_col col v df)) = length (rows df)"
  by (simp add: fillna_col_def)

lemma col_vals_fillna_col:
  "col_vals c (fillna_col col v df) =
     (if c = col then map (fillna v) (col_vals c df) else col_vals c df)"
  by (simp add: fillna_col_def col_vals_def)

lemma fillna_col_no_missing:
  assumes "\<forall>r \<in> set (rows df). cells r col \<noteq> NA"
  shows "fillna_col col v df = df"
proof -
  have "map (\<lambda>r. r\<lparr>cells := (cells r)(col := fillna v (cells r col))\<rparr>) (rows df) = rows df"
    using assms by (intro map_idI) (simp add: fillna_def)
  then show ?thesis by (simp add: fillna_col_def)
qed

lemma fillna_col_NA: "fillna_col col NA df = df"
proof -
  have "map (\<lambda>r. r\<lparr>cells := (cells r)(col := fillna NA (cells r col))\<rparr>) (rows df) = rows df"
    by (intro map_idI) (simp add: fillna_def)
  then show ?thesis by (simp add: fillna_col_def)
qed

lemma kept_refl: "kept df df"
  by (simp add: kept_def kept_row_def list_all2_refl)

lemma kept_row_trans: "kept_row a b \<Longrightarrow> kept_row b c \<Longrightarrow> kept_row a c"
  by (auto simp: kept_row_def)

lemma kept_trans: "kept a b \<Longrightarrow> kept b c \<Longrightarrow> kept a c"
  unfolding kept_def
  by (auto intro: list_all2_trans [where ?P1.0 = kept_row and ?P2.0 = kept_row] kept_row_trans)

lemma kept_fillna_col: "kept df (fillna_col col v df)"
  by (simp add: kept_def fillna_col_def list_all2_map2 kept_row_def fillna_def list_all2_refl)

lemma kept_fill_values: "kept df (fill_values kvs df)"
proof (induction kvs arbitrary: df)
  case Nil
  show ?case by (simp add: kept_refl)
next
  case (Cons kv kvs)
  obtain col v where kv: "kv = (col, v)" by (cases kv)
  show ?case
    using Cons [of "fillna_col col v df"] Cons [of df] kept_fillna_col [of df col v]
    by (auto simp: kv intro: kept_trans)
qed

lemma kept_fill_zeros: "kept df (fill_zeros cs df)"
proof (induction cs arbitrary: df)
  case Nil
  show ?case by (simp add: kept_refl)
next
  case (Cons c cs)
  show ?case
    using Cons [of "fillna_col c (N (Fin 0)) df"] kept_fillna_col [of df c "N (Fin 0)"]
    by (auto intro: kept_trans)
qed

lemma kept_fill_medians: "fill_medians cs df = Inr df' \<Longrightarrow> kept df df'"
proof (induction cs arbitrary: df)
  case Nil
  then show ?case by (simp add: kept_refl)
next
  case (Cons c cs)
  show ?case
  proof (cases "c \<in> set (columns df)")
    case False
    with Cons show ?thesis by simp
  next
    case True
    with Cons.prems obtain m where
      "fill_medians cs (fillna_col c (N m) df) = Inr df'"
      by (auto simp: bind_err_def split: sum.splits)
    from Cons.IH [OF this] kept_fillna_col [of df c "N m"] show ?thesis
      by (rule kept_trans [rotated])
  qed
qed

lemma impute_success:
  assumes "impute_missing_values covid_df vacc_df = Inr (covid', vacc')"
  shows "fill_medians socio_cols (fill_values covid_strategies covid_df) = Inr covid'"
    and "vacc' = fill_zeros
           (filter (\<lambda>col. col \<notin> set [''country'', ''date'']) (columns vacc_df)) vacc_df"
  using assms
  by (auto simp: impute_missing_values_def bind_err_def Let_def split: sum.splits)

lemma kept_nth:
  assumes "kept df df'"
  shows "columns df' = columns df \<and> length (rows df') = length (rows df) \<and>
    (\<forall>i < length (rows df).
       label (rows df' ! i) = label (rows df ! i) \<and>
       (\<forall>c. cells (rows df ! i) c \<noteq> NA \<longrightarrow> cells (rows df' ! i) c = cells (rows df ! i) c))"
  using assms by (auto simp: kept_def list_all2_conv_all_nth kept_row_def)


lemma as_nums_map_N: "as_nums (map N ys) = Inr ys"
  by (induction ys) (auto simp: bind_err_def)

lemma as_nums_Inr_D: "as_nums xs = Inr ys \<Longrightarrow> xs = map N ys"
proof (induction xs arbitrary: ys)
  case Nil
  then show ?case by simp
next
  case (Cons x xs)
  show ?case
  proof (cases x)
    case (N a)
    with Cons.prems obtain zs where "as_nums xs = Inr zs" "ys = a # zs"
      by (auto simp: bind_err_def split: sum.splits)
    with Cons.IH [of zs] N show ?thesis by simp
  next
    case (Txt s)
    with Cons.prems show ?thesis by simp
  qed
qed

lemma as_nums_Inr: "as_nums xs = Inr ys \<longleftrightarrow> xs = map N ys"
  using as_nums_Inr_D as_nums_map_N by blast

lemma as_nums_num_of: "as_nums xs = Inr ys \<Longrightarrow> ys = map num_of xs"
  by (simp add: as_nums_Inr comp_def)

lemma as_nums_returns: "\<not> list_ex is_text xs \<Longrightarrow> as_nums xs = Inr (map num_of xs)"
proof (induction xs)
  case Nil
  show ?case by simp
next
  case (Cons x xs)
  then show ?case by (cases x) (auto simp: bind_err_def)
qed

lemma as_nums_text: "as_nums xs = Inr ys \<Longrightarrow> \<not> list_ex is_text xs"
  by (auto simp: as_nums_Inr list_ex_iff)

lemma columns_fill_values [simp]: "columns (fill_values kvs df) = columns df"
  by (induction kvs df rule: fill_values.induct) auto

lemma col_vals_fill_values:
  "c \<notin> fst ` set kvs \<Longrightarrow> col_vals c (fill_values kvs df) = col_vals c df"
  by (induction kvs df rule: fill_values.induct) (auto simp: col_vals_fillna_col)

lemma columns_fill_medians: "fill_medians cs df = Inr df' \<Longrightarrow> columns df' = columns df"
  using kept_fill_medians [of cs df df'] by (simp add: kept_def)





lemma socio_not_zero_filled: "c \<in> set socio_cols \<Longrightarrow> c \<notin> fst ` set covid_strategies"
  by (auto simp: socio_cols_def covid_strategies_def)


lemma no_text_fillna_col:
  "\<not> list_ex is_text (col_vals c df) \<Longrightarrow> \<not> list_ex is_text (col_vals c (fillna_col a (N m) df))"
  by (auto simp: col_vals_fillna_col list_ex_iff fillna_def)

lemma fill_medians_returns:
  assumes "\<forall>c \<in> set cs. c \<in> set (columns df) \<longrightarrow> \<not> list_ex is_text (col_vals c df)"
  shows "\<exists>df'. fill_medians cs df = Inr df'"
  using assms
proof (induction cs arbitrary: df)
  case Nil
  show ?case by simp
next
  case (Cons a cs)
  show ?case
  proof (cases "a \<in> set (columns df)")
    case False
    with Cons show ?thesis by simp
  next
    case True
    with Cons.prems have "\<not> list_ex is_text (col_vals a df)" by simp
    then have m: "median (col_vals a df) = Inr (median_nums (map num_of (col_vals a df)))"
      by (simp add: median_def as_nums_returns bind_err_def)
    have "\<forall>c \<in> set cs. c \<in> set (columns (fillna_col a (N m) df)) \<longrightarrow>
            \<not> list_ex is_text (col_vals c (fillna_col a (N m) df))" for m
      using Cons.prems by (simp add: no_text_fillna_col)
    from Cons.IH [OF this] True m show ?thesis
      by (simp add: bind_err_def)
  qed
qed

lemma impute_returns:
  assumes "\<forall>c \<in> set socio_cols. c \<in> set (columns covid_df) \<longrightarrow>
             \<not> list_ex is_text (col_vals c covid_df)"
  shows "\<exists>covid' vacc'. impute_missing_values covid_df vacc_df = Inr (covid', vacc')"
proof -
  have "\<forall>c \<in> set socio_cols. c \<in> set (columns (fill_values covid_strategies covid_df)) \<longrightarrow>
          \<not> list_ex is_text (col_vals c (fill_values covid_strategies covid_df))"
    using assms by (simp add: col_vals_fill_values socio_not_zero_filled)
  from fill_medians_returns [OF this] show ?thesis
    by (auto simp: impute_missing_values_def bind_err_def Let_def)
qed

lemma fill_values_no_missing: "no_missing df \<Longrightarrow> fill_values kvs df = df"
proof (induction kvs)
  case Nil
  show ?case by simp
next
  case (Cons kv kvs)
  obtain col v where kv: "kv = (col, v)" by (cases kv)
  have "fillna_col col v df = df" if "col \<in> set (columns df)"
    using Cons.prems that by (intro fillna_col_no_missing) (simp add: no_missing_def)
  with Cons show ?case by (simp add: kv)
qed

lemma fill_zeros_no_missing:
  "no_missing df \<Longrightarrow> set cs \<subseteq> set (columns df) \<Longrightarrow> fill_zeros cs df = df"
proof (induction cs)
  case Nil
  show ?case by simp
next
  case (Cons c cs)
  have "fillna_col c (N (Fin 0)) df = df"
    using Cons.prems by (intro fillna_col_no_missing) (simp add: no_missing_def)
  with Cons show ?case by simp
qed

lemma fill_medians_no_missing:
  "no_missing df \<Longrightarrow> fill_medians cs df = Inr df' \<Longrightarrow> df' = df"
proof (induction cs)
  case Nil
  then show ?case by simp
next
  case (Cons c cs)
  have "fillna_col c v df = df" if "c \<in> set (columns df)" for v
    using Cons.prems(1) that by (intro fillna_col_no_missing) (simp add: no_missing_def)
  with Cons show ?case
    by (auto simp: bind_err_def split: if_splits sum.splits)
qed

lemma no_missing_covid_example: "no_missing covid_example"
  by (simp add: no_missing_def covid_example_def row_of_def)

lemma no_missing_vacc_example: "no_missing vacc_example"
  by (simp add: no_missing_def vacc_example_def row_of_def)

lemma covid_gaps_returns:
  "\<exists>covid' vacc'. impute_missing_values covid_gaps vacc_gaps = Inr (covid', vacc')"
  by (rule impute_returns) (simp add: socio_cols_def covid_gaps_def col_vals_def row_of_def)


text \<open>
  C10. When the Imputer returns, each output table has the columns, the number of rows,
  the row order and the row labels of its input, and every cell that was not missing in
  the input is unchanged at its row and column.
\<close>

theorem imputer_frame:
  assumes "impute_missing_values covid_df vacc_df = Inr (covid', vacc')"
  shows "(columns covid' = columns covid_df \<and> length (rows covid') = length (rows covid_df) \<and>
    (\<forall>i < length (rows covid_df).
       label (rows covid' ! i) = label (rows covid_df ! i) \<and>
       (\<forall>c. cells (rows covid_df ! i) c \<noteq> NA \<longrightarrow>
            cells (rows covid' ! i) c = cells (rows covid_df ! i) c))) \<and>
   (columns vacc' = columns vacc_df \<and> length (rows vacc') = length (rows vacc_df) \<and>
    (\<forall>i < length (rows vacc_df).
       label (rows vacc' ! i) = label (rows vacc_df ! i) \<and>
       (\<forall>c. cells (rows vacc_df ! i) c \<noteq> NA \<longrightarrow>
            cells (rows vacc' ! i) c = cells (rows vacc_df ! i) c)))"
proof -
  have "kept covid_df (fill_values covid_strategies covid_df)"
    by (rule kept_fill_values)
  moreover have "kept (fill_values covid_strategies covid_df) covid'"
    using impute_success(1) [OF assms] by (rule kept_fill_medians)
  ultimately have c: "kept covid_df covid'"
    by (rule kept_trans)
  have v: "kept vacc_df vacc'"
    unfolding impute_success(2) [OF assms] by (rule kept_fill_zeros)
  from kept_nth [OF c] kept_nth [OF v] show ?thesis by (rule conjI)
qed

theorem imputer_frame_witness:
  "\<exists>covid' vacc'. impute_missing_values covid_gaps vacc_gaps = Inr (covid', vacc') \<and>
     length (rows covid') = 3 \<and>
     cells (rows covid_gaps ! 2) ''total_cases'' \<noteq> NA \<and>
     cells (rows covid' ! 2) ''total_cases'' = N (Fin 7) \<and>
     cells (rows vacc_gaps ! 1) ''total_vaccinations'' \<noteq> NA \<and>
     cells (rows vacc' ! 1) ''total_vaccinations'' = N (Fin 3)"
proof -
  obtain covid' vacc' where ok: "impute_missing_values covid_gaps vacc_gaps = Inr (covid', vacc')"
    using covid_gaps_returns by blast
  have a: "cells (rows covid_gaps ! 2) ''total_cases'' = N (Fin 7)"
    and b: "cells (rows vacc_gaps ! 1) ''total_vaccinations'' = N (Fin 3)"
    and c: "length (rows covid_gaps) = 3" and d: "length (rows vacc_gaps) = 2"
    by (simp_all add: covid_gaps_def vacc_gaps_def row_of_def)
  from imputer_frame [OF ok] a b c d
  have "length (rows covid') = 3 \<and>
     cells (rows covid' ! 2) ''total_cases'' = N (Fin 7) \<and>
     cells (rows vacc' ! 1) ''total_vaccinations'' = N (Fin 3)"
    by auto
  with ok a b show ?thesis by auto
qed



text \<open>
  C8. On two tables without a missing value the Imputer changes nothing: whatever it
  returns is the pair of its inputs, and it does return when no median-fill column holds
  text (as in every output of an earlier run).
\<close>

theorem imputer_idempotent:
  assumes covid: "no_missing covid_df" and vacc: "no_missing vacc_df"
  shows "(\<forall>out. impute_missing_values covid_df vacc_df = Inr out \<longrightarrow> out = (covid_df, vacc_df)) \<and>
    ((\<forall>c \<in> set socio_cols. c \<in> set (columns covid_df) \<longrightarrow>
         \<not> list_ex is_text (col_vals c covid_df)) \<longrightarrow>
       impute_missing_values covid_df vacc_df = Inr (covid_df, vacc_df))"
proof -
  have same: "out = (covid_df, vacc_df)"
    if out: "impute_missing_values covid_df vacc_df = Inr out" for out
  proof -
    obtain covid' vacc' where p: "out = (covid', vacc')" by (cases out)
    have "fill_medians socio_cols covid_df = Inr covid'"
      using impute_success(1) [OF out [unfolded p]]
      by (simp add: fill_values_no_missing [OF covid])
    then have "covid' = covid_df"
      by (rule fill_medians_no_missing [OF covid])
    moreover have "vacc' = vacc_df"
      unfolding impute_success(2) [OF out [unfolded p]]
      by (rule fill_zeros_no_missing [OF vacc]) auto
    ultimately show ?thesis by (simp add: p)
  qed
  have "impute_missing_values covid_df vacc_df = Inr (covid_df, vacc_df)"
    if "\<forall>c \<in> set socio_cols. c \<in> set (columns covid_df) \<longrightarrow>
          \<not> list_ex is_text (col_vals c covid_df)"
    using impute_returns [OF that, of vacc_df] same by auto
  with same show ?thesis by blast
qed

theorem imputer_idempotent_witness:
  "no_missing covid_example \<and> no_missing vacc_example \<and>
   impute_missing_values covid_example vacc_example = Inr (covid_example, vacc_example)"
proof -
  have "\<forall>c \<in> set socio_cols. c \<in> set (columns covid_example) \<longrightarrow>
          \<not> list_ex is_text (col_vals c covid_example)"
    by (simp add: socio_cols_def covid_example_def)
  with imputer_idempotent [OF no_missing_covid_example no_missing_vacc_example]
    no_missing_covid_example no_missing_vacc_example
  show ?thesis by blast
qed

section \<open>Properties of the dataset splitter\<close>


lemma columns_dropna_select:
  "columns (dropna (select_cols cs df)) = cs"
  by (simp add: dropna_def select_cols_def)

lemma rows_dropna_select:
  "rows (dropna (select_cols cs df)) =
     map (\<lambda>r. r\<lparr>cells := (\<lambda>c. if c \<in> set cs then cells r c else NA)\<rparr>)
       (filter (\<lambda>r. \<forall>c \<in> set cs. cells r c \<noteq> NA) (rows df))"
  by (simp add: dropna_def select_cols_def filter_map comp_def cong: filter_cong)

lemma split_table:
  fixes df :: table and allow :: "string list"
  defines "kept_cols \<equiv> filter (\<lambda>col. col \<in> set (columns df)) allow"
  defines "out \<equiv> dropna (select_cols kept_cols df)"
  defines "full_rows \<equiv> filter (\<lambda>r. \<forall>c \<in> set kept_cols. cells r c \<noteq> NA) (rows df)"
  shows "columns out = kept_cols \<and>
    map label (rows out) = map label full_rows \<and>
    map (\<lambda>r. map (cells r) kept_cols) (rows out) = map (\<lambda>r. map (cells r) kept_cols) full_rows \<and>
    (\<forall>r \<in> set (rows out). \<forall>c \<in> set (columns out). cells r c \<noteq> NA)"
  unfolding out_def full_rows_def
  by (auto simp: columns_dropna_select rows_dropna_select)

text \<open>
  C9. Each of the two outputs of the Dataset Splitter has exactly the columns of its
  allow-list that the snapshot has, in the order of the allow-list; its rows are the
  snapshot's rows without a missing cell in those columns, in order, with their labels
  and their cells in those columns; and no row of either output has a missing cell in
  any of its columns.
\<close>

theorem splitter_no_missing:
  fixes integrated_df :: table
  defines "reg_cols \<equiv> filter (\<lambda>col. col \<in> set (columns integrated_df)) regression_cols"
  defines "cls_cols \<equiv> filter (\<lambda>col. col \<in> set (columns integrated_df)) classification_cols"
  defines "reg_rows \<equiv> filter (\<lambda>r. \<forall>c \<in> set reg_cols. cells r c \<noteq> NA) (rows integrated_df)"
  defines "cls_rows \<equiv> filter (\<lambda>r. \<forall>c \<in> set cls_cols. cells r c \<noteq> NA) (rows integrated_df)"
  assumes out: "create_ml_datasets integrated_df = (regression_data, classification_data)"
  shows "columns regression_data = reg_cols \<and>
    map label (rows regression_data) = map label reg_rows \<and>
    map (\<lambda>r. map (cells r) reg_cols) (rows regression_data) =
      map (\<lambda>r. map (cells r) reg_cols) reg_rows \<and>
    (\<forall>r \<in> set (rows regression_data). \<forall>c \<in> set (columns regression_data). cells r c \<noteq> NA) \<and>
    columns classification_data = cls_cols \<and>
    map label (rows classification_data) = map label cls_rows \<and>
    map (\<lambda>r. map (cells r) cls_cols) (rows classification_data) =
      map (\<lambda>r. map (cells r) cls_cols) cls_rows \<and>
    (\<forall>r \<in> set (rows classification_data). \<forall>c \<in> set (columns classification_data).
       cells r c \<noteq> NA)"
proof -
  have r: "regression_data = dropna (select_cols reg_cols integrated_df)"
    and c: "classification_data = dropna (select_cols cls_cols integrated_df)"
    using out by (simp_all add: create_ml_datasets_def Let_def reg_cols_def cls_cols_def)
  from split_table [of integrated_df regression_cols]
    split_table [of integrated_df classification_cols]
  show ?thesis
    unfolding r c reg_cols_def cls_cols_def reg_rows_def cls_rows_def by blast
qed


theorem splitter_no_missing_witness:
  "\<exists>regression_data classification_data.
     create_ml_datasets snapshot_example = (regression_data, classification_data) \<and>
     columns regression_data = [''country'', ''gdp_per_capita'', ''hospital_beds_per_thousand'',
       ''vaccination_speed''] \<and>
     map label (rows regression_data) = [range_label 0] \<and>
     columns classification_data = [''country'', ''total_deaths_per_million'',
       ''gdp_per_capita'', ''hospital_beds_per_thousand'', ''death_rate''] \<and>
     map label (rows classification_data) = [range_label 0, range_label 2] \<and>
     map (\<lambda>r. map (cells r) [''country'', ''total_deaths_per_million'', ''gdp_per_capita'',
            ''hospital_beds_per_thousand'', ''death_rate'']) (rows classification_data) =
       [[Txt ''P'', N (Fin 100), N (Fin 5000), N (Fin 2), N (Fin 3)],
        [Txt ''R'', N (Fin 10), N (Fin 7000), N (Fin 3), N (Fin 0)]]"
proof -
  obtain regression_data classification_data where
    out: "create_ml_datasets snapshot_example = (regression_data, classification_data)"
    by (cases "create_ml_datasets snapshot_example")
  have rc: "filter (\<lambda>col. col \<in> set (columns snapshot_example)) regression_cols =
      [''country'', ''gdp_per_capita'', ''hospital_beds_per_thousand'', ''vaccination_speed'']"
    by (simp add: snapshot_example_def regression_cols_def)
  have cc: "filter (\<lambda>col. col \<in> set (columns snapshot_example)) classification_cols =
      [''country'', ''total_deaths_per_million'', ''gdp_per_capita'',
       ''hospital_beds_per_thousand'', ''death_rate'']"
    by (simp add: snapshot_example_def classification_cols_def)
  have rr: "map label (filter (\<lambda>r. \<forall>c \<in> set [''country'', ''gdp_per_capita'',
        ''hospital_beds_per_thousand'', ''vaccination_speed'']. cells r c \<noteq> NA)
      (rows snapshot_example)) = [range_label 0]"
    by (simp add: snapshot_example_def row_of_def)
  have cr: "map label (filter (\<lambda>r. \<forall>c \<in> set [''country'', ''total_deaths_per_million'',
        ''gdp_per_capita'', ''hospital_beds_per_thousand'', ''death_rate'']. cells r c \<noteq> NA)
      (rows snapshot_example)) = [range_label 0, range_label 2]"
    by (simp add: snapshot_example_def row_of_def)
  have cv: "map (\<lambda>r. map (cells r) [''country'', ''total_deaths_per_million'',
        ''gdp_per_capita'', ''hospital_beds_per_thousand'', ''death_rate''])
      (filter (\<lambda>r. \<forall>c \<in> set [''country'', ''total_deaths_per_million'',
        ''gdp_per_capita'', ''hospital_beds_per_thousand'', ''death_rate'']. cells r c \<noteq> NA)
      (rows snapshot_example)) =
       [[Txt ''P'', N (Fin 100), N (Fin 5000), N (Fin 2), N (Fin 3)],
        [Txt ''R'', N (Fin 10), N (Fin 7000), N (Fin 3), N (Fin 0)]]"
    by (simp add: snapshot_example_def row_of_def)
  from splitter_no_missing [OF out]
  have res: "columns regression_data = [''country'', ''gdp_per_capita'',
       ''hospital_beds_per_thousand'', ''vaccination_speed''] \<and>
     map label (rows regression_data) = [range_label 0] \<and>
     columns classification_data = [''country'', ''total_deaths_per_million'',
       ''gdp_per_capita'', ''hospital_beds_per_thousand'', ''death_rate''] \<and>
     map label (rows classification_data) = [range_label 0, range_label 2] \<and>
     map (\<lambda>r. map (cells r) [''country'', ''total_deaths_per_million'', ''gdp_per_capita'',
            ''hospital_beds_per_thousand'', ''death_rate'']) (rows classification_data) =
       [[Txt ''P'', N (Fin 100), N (Fin 5000), N (Fin 2), N (Fin 3)],
        [Txt ''R'', N (Fin 10), N (Fin 7000), N (Fin 3), N (Fin 0)]]"
    unfolding rc cc rr cr cv by simp
  show ?thesis
    by (rule exI [of _ regression_data], rule exI [of _ classification_data])
      (rule conjI [OF out res])
qed

section \<open>Properties of the feature builder\<close>



lemma bind_err_Inr: "bind_err m f = Inr y \<longleftrightarrow> (\<exists>x. m = Inr x \<and> f x = Inr y)"
  by (cases m) (auto simp: bind_err_def)

lemma get_col_Inr: "get_col c df = Inr xs \<longleftrightarrow> c \<in> set (columns df) \<and> xs = col_vals c df"
  by (auto simp: get_col_def)

lemma length_col_vals [simp]: "length (col_vals c df) = length (rows df)"
  by (simp add: col_vals_def)


lemma length_rows_set_col:
  "length xs = length (rows df) \<Longrightarrow> length (rows (set_col c xs df)) = length (rows df)"
  by (simp add: set_col_def)

lemma col_vals_set_col_same:
  assumes "length xs = length (rows df)"
  shows "col_vals c (set_col c xs df) = xs"
proof -
  have "col_vals c (set_col c xs df) = map snd (zip (rows df) xs)"
    by (simp add: set_col_def col_vals_def case_prod_unfold)
  then show ?thesis
    using assms by (simp only: map_snd_zip)
qed

lemma col_vals_set_col_other:
  "length xs = length (rows df) \<Longrightarrow> c' \<noteq> c \<Longrightarrow> col_vals c' (set_col c xs df) = col_vals c' df"
proof -
  assume l: "length xs = length (rows df)" and n: "c' \<noteq> c"
  have "col_vals c' (set_col c xs df) = map (\<lambda>p. cells (fst p) c') (zip (rows df) xs)"
    using n by (simp add: set_col_def col_vals_def case_prod_unfold)
  also have "\<dots> = map (\<lambda>r. cells r c') (map fst (zip (rows df) xs))"
    by simp
  also have "\<dots> = col_vals c' df"
    using l by (simp only: map_fst_zip col_vals_def)
  finally show ?thesis .
qed

lemma cells_nth: "i < length (rows df) \<Longrightarrow> cells (rows df ! i) c = col_vals c df ! i"
  by (simp add: col_vals_def)


lemma map_zip_map:
  "map f (zip (map a rs) (map b rs)) = map (\<lambda>r. f (a r, b r)) rs"
  by (induction rs) auto








lemma create_features_Inr:
  "create_features covid_df vacc_df = Inr (covid', vacc') \<longleftrightarrow>
     (\<exists>covid1 vacc1. add_death_rate covid_df = Inr covid1 \<and>
        add_healthcare_capacity_index covid1 = Inr covid' \<and>
        add_vaccination_speed vacc_df = Inr vacc1 \<and>
        add_vaccination_efficiency vacc1 = Inr vacc')"
  by (auto simp: create_features_def bind_err_Inr)


lemma add_vaccination_efficiency_Inr:
  assumes "add_vaccination_efficiency df = Inr df'"
  shows "\<exists>fs ps. col_vals ''people_fully_vaccinated'' df = map N fs \<and>
    col_vals ''people_vaccinated'' df = map N ps \<and>
    df' = set_col ''vaccination_efficiency''
       (map (\<lambda>(f, p). N (num_mul (fillna_num (Fin 0) (replace_inf (num_div f p))) (Fin 100)))
          (zip fs ps)) df"
  using assms unfolding add_vaccination_efficiency_def bind_err_Inr get_col_Inr as_nums_Inr
  by blast



lemma add_vaccination_speed_Inr:
  assumes "add_vaccination_speed df = Inr df'"
  shows "\<exists>vs. ''country'' \<in> set (columns df) \<and>
    ''people_vaccinated_per_hundred'' \<in> set (columns df) \<and>
    col_vals ''people_vaccinated_per_hundred'' df = map N vs \<and>
    df' = set_col ''vaccination_speed''
       (map (\<lambda>x. N (fillna_num (Fin 0) x))
          (group_diff Map.empty (zip (col_vals ''country'' df) vs))) df"
  using assms
  unfolding add_vaccination_speed_def groupby_diff_def bind_err_Inr get_col_Inr as_nums_Inr
  by blast


lemma rows_set_col_map:
  "rows (set_col c (map h (rows df)) df) =
     map (\<lambda>r. r\<lparr>cells := (cells r)(c := h r)\<rparr>) (rows df)"
proof -
  have "zip rs (map h rs) = map (\<lambda>r. (r, h r)) rs" for rs :: "row list"
    by (induction rs) auto
  then show ?thesis by (simp add: set_col_def comp_def)
qed

lemma col_vals_map_N: "col_vals a df = map N xs \<Longrightarrow> xs = map (\<lambda>r. num_of (cells r a)) (rows df)"
proof -
  assume "col_vals a df = map N xs"
  then have "map num_of (col_vals a df) = map num_of (map N xs)" by simp
  then show ?thesis by (simp add: col_vals_def comp_def)
qed

lemma ratio_column:
  assumes "col_vals a df = map N xs" and "col_vals b df = map N ys"
  shows "rows (set_col c (map (\<lambda>(x, y). N (f x y)) (zip xs ys)) df) =
    map (\<lambda>r. r\<lparr>cells := (cells r)(c := N (f (num_of (cells r a)) (num_of (cells r b))))\<rparr>)
      (rows df)"
proof -
  have "map (\<lambda>(x, y). N (f x y)) (zip xs ys) =
        map (\<lambda>r. N (f (num_of (cells r a)) (num_of (cells r b)))) (rows df)"
    unfolding col_vals_map_N [OF assms(1)] col_vals_map_N [OF assms(2)]
    by (simp add: map_zip_map)
  then show ?thesis by (simp only: rows_set_col_map)
qed

lemma num_of_zero: "c = N (Fin 0) \<Longrightarrow> num_of c = Fin 0"
  by simp








lemma length_group_diff [simp]: "length (group_diff prev kvs) = length kvs"
proof (induction kvs arbitrary: prev)
  case Nil
  show ?case by simp
next
  case (Cons kv kvs)
  obtain k x where "kv = (k, x)" by (cases kv)
  with Cons show ?case by simp
qed

lemma prev_of_Cons:
  "prev_of prev ((k0, x0) # kvs) k =
     prev_of (if k0 = NA then prev else prev(k0 \<mapsto> x0)) kvs k" if "k \<noteq> NA"
  using that by (auto simp: prev_of_def split: list.splits)

lemma group_diff_nth:
  "i < length kvs \<Longrightarrow>
   group_diff prev kvs ! i =
     (if fst (kvs ! i) = NA then NaN
      else case prev_of prev (take i kvs) (fst (kvs ! i)) of
             None \<Rightarrow> NaN | Some p \<Rightarrow> num_sub (snd (kvs ! i)) p)"
proof (induction kvs arbitrary: prev i)
  case Nil
  then show ?case by simp
next
  case (Cons kv rest)
  obtain k x where kv: "kv = (k, x)" by (cases kv)
  show ?case
  proof (cases i)
    case 0
    then show ?thesis by (simp add: kv prev_of_def split: option.splits)
  next
    case (Suc j)
    with Cons.prems have j: "j < length rest" by simp
    let ?prev' = "if k = NA then prev else prev(k \<mapsto> x)"
    have "group_diff prev (kv # rest) ! i = group_diff ?prev' rest ! j"
      by (simp add: kv Suc)
    also have "\<dots> =
      (if fst (rest ! j) = NA then NaN
       else case prev_of ?prev' (take j rest) (fst (rest ! j)) of
              None \<Rightarrow> NaN | Some p \<Rightarrow> num_sub (snd (rest ! j)) p)"
      by (rule Cons.IH [OF j])
    also have "\<dots> =
      (if fst ((kv # rest) ! i) = NA then NaN
       else case prev_of prev (take i (kv # rest)) (fst ((kv # rest) ! i)) of
              None \<Rightarrow> NaN | Some p \<Rightarrow> num_sub (snd ((kv # rest) ! i)) p)"
      by (simp add: kv Suc prev_of_Cons cong: option.case_cong)
    finally show ?thesis .
  qed
qed

lemma zip_map_same: "zip (map f xs) (map g xs) = map (\<lambda>x. (f x, g x)) xs"
  by (induction xs) auto

lemma last_map_Cons: "last (map h (p # ps)) = h (last (p # ps))"
  by (simp add: last_map del: list.map)

lemma prev_of_map:
  "prev_of Map.empty (map h rs) k =
     (case filter (\<lambda>r. fst (h r) = k) rs of
        [] \<Rightarrow> None
      | p # ps \<Rightarrow> Some (snd (h (last (p # ps)))))"
proof (cases "filter (\<lambda>r. fst (h r) = k) rs")
  case Nil
  then show ?thesis by (simp add: prev_of_def filter_map comp_def)
next
  case (Cons p ps)
  have "filter (\<lambda>p. fst p = k) (map h rs) = h p # map h ps"
    by (simp add: filter_map comp_def Cons)
  moreover have "last (h p # map h ps) = h (last (p # ps))"
    using last_map_Cons [of h p ps] by simp
  ultimately show ?thesis
    by (simp only: prev_of_def Cons list.case)
qed

lemma speed_rows:
  assumes ok: "add_vaccination_speed df = Inr df'"
  shows "length (rows df') = length (rows df) \<and>
    (\<forall>i < length (rows df).
       cells (rows df' ! i) ''vaccination_speed'' = N (vaccination_speed_spec (rows df) i))"
proof -
  let ?h = "\<lambda>r. (cells r ''country'', num_of (cells r ''people_vaccinated_per_hundred''))"
  let ?kvs = "map ?h (rows df)"
  let ?S = "map (\<lambda>x. N (fillna_num (Fin 0) x)) (group_diff Map.empty ?kvs)"
  from add_vaccination_speed_Inr [OF ok] obtain vs where
    vs: "col_vals ''people_vaccinated_per_hundred'' df = map N vs"
    and df': "df' = set_col ''vaccination_speed''
       (map (\<lambda>x. N (fillna_num (Fin 0) x))
          (group_diff Map.empty (zip (col_vals ''country'' df) vs))) df"
    by blast
  have "zip (col_vals ''country'' df) vs = ?kvs"
    unfolding col_vals_map_N [OF vs] col_vals_def by (rule zip_map_same)
  then have df': "df' = set_col ''vaccination_speed'' ?S df"
    using df' by simp
  have len: "length ?S = length (rows df)"
    by simp
  have l: "length (rows df') = length (rows df)"
    unfolding df' using len by (rule length_rows_set_col)
  have col: "col_vals ''vaccination_speed'' df' = ?S"
    unfolding df' using len by (rule col_vals_set_col_same)
  have "cells (rows df' ! i) ''vaccination_speed'' = N (vaccination_speed_spec (rows df) i)"
    if i: "i < length (rows df)" for i
  proof -
    let ?r = "rows df ! i"
    let ?k = "cells ?r ''country''"
    let ?same = "filter (\<lambda>p. cells p ''country'' = ?k) (take i (rows df))"
    have pv: "prev_of Map.empty (take i ?kvs) ?k =
        (case ?same of
           [] \<Rightarrow> None
         | p # ps \<Rightarrow> Some (num_of (cells (last (p # ps)) ''people_vaccinated_per_hundred'')))"
      using prev_of_map [of ?h "take i (rows df)" ?k]
      by (simp add: take_map cong: list.case_cong)
    have "cells (rows df' ! i) ''vaccination_speed'' = ?S ! i"
      using i l by (simp add: cells_nth col)
    also have "\<dots> = N (fillna_num (Fin 0) (group_diff Map.empty ?kvs ! i))"
      using i by simp
    also have "group_diff Map.empty ?kvs ! i =
      (if ?k = NA then NaN
       else case prev_of Map.empty (take i ?kvs) ?k of
              None \<Rightarrow> NaN
            | Some p \<Rightarrow> num_sub (num_of (cells ?r ''people_vaccinated_per_hundred'')) p)"
      using i by (simp add: group_diff_nth cong: option.case_cong)
    also have "fillna_num (Fin 0) \<dots> = vaccination_speed_spec (rows df) i"
      unfolding pv vaccination_speed_spec_def Let_def
      by (simp add: fillna_num_def split: list.splits)
    finally show ?thesis .
  qed
  with l show ?thesis by blast
qed

lemma efficiency_keeps:
  assumes "add_vaccination_efficiency df = Inr df'"
  shows "length (rows df') = length (rows df) \<and>
    (\<forall>i < length (rows df).
       cells (rows df' ! i) ''vaccination_speed'' = cells (rows df ! i) ''vaccination_speed'')"
proof -
  from add_vaccination_efficiency_Inr [OF assms] obtain fs ps where
    f: "col_vals ''people_fully_vaccinated'' df = map N fs"
    and p: "col_vals ''people_vaccinated'' df = map N ps"
    and df': "df' = set_col ''vaccination_efficiency''
       (map (\<lambda>(f, p). N (num_mul (fillna_num (Fin 0) (replace_inf (num_div f p))) (Fin 100)))
          (zip fs ps)) df"
    by blast
  show ?thesis
    unfolding df' ratio_column [OF f p] by simp
qed

lemma speed_spec_vacc_example:
  "map (vaccination_speed_spec (rows vacc_example)) [0, 1, 2, 3, 4] =
     [Fin 0, Fin 0, Fin 3, Fin 0, Fin 7]"
  by code_simp

text \<open>
  C6. In every output of the Feature Builder the vaccination table has as many rows as
  its input, and \<open>vaccination_speed\<close> in row \<open>i\<close> is the value of
  \<open>people_vaccinated_per_hundred\<close> in that row minus its value in the previous row of the
  same country (\<open>vaccination_speed_spec\<close>), and 0 in the first row of each country. For
  country Y with 5, 8, 8, 15 the speeds are 0, 3, 0, 7, also with a row of another country
  in between.
\<close>

theorem vaccination_speed_is_group_difference:
  assumes ok: "create_features covid_df vacc_df = Inr (covid', vacc')"
  shows "length (rows vacc') = length (rows vacc_df) \<and>
    (\<forall>i < length (rows vacc_df).
       cells (rows vacc' ! i) ''vaccination_speed'' =
         N (vaccination_speed_spec (rows vacc_df) i))"
proof -
  from ok obtain vacc1 where
    s3: "add_vaccination_speed vacc_df = Inr vacc1"
    and s4: "add_vaccination_efficiency vacc1 = Inr vacc'"
    unfolding create_features_Inr by blast
  from speed_rows [OF s3] efficiency_keeps [OF s4] show ?thesis
    by simp
qed

theorem vaccination_speed_is_group_difference_witness:
  "\<exists>covid' vacc'. create_features covid_example vacc_example = Inr (covid', vacc') \<and>
     map (\<lambda>i. cells (rows vacc_example ! i) ''country'') [0, 1, 2, 3, 4] =
       [Txt ''Y'', Txt ''Z'', Txt ''Y'', Txt ''Y'', Txt ''Y''] \<and>
     map (\<lambda>i. cells (rows vacc_example ! i) ''people_vaccinated_per_hundred'') [0, 1, 2, 3, 4] =
       [N (Fin 5), N (Fin 0), N (Fin 8), N (Fin 8), N (Fin 15)] \<and>
     map (\<lambda>i. cells (rows vacc' ! i) ''vaccination_speed'') [0, 1, 2, 3, 4] =
       [N (Fin 0), N (Fin 0), N (Fin 3), N (Fin 0), N (Fin 7)]"
proof -
  have "\<not> isl (create_features covid_example vacc_example)"
    by code_simp
  then obtain covid' vacc' where
    ok: "create_features covid_example vacc_example = Inr (covid', vacc')"
    by (cases "create_features covid_example vacc_example") auto
  have n: "length (rows vacc_example) = 5"
    by (simp add: vacc_example_def)
  have a: "map (\<lambda>i. cells (rows vacc_example ! i) ''country'') [0, 1, 2, 3, 4] =
       [Txt ''Y'', Txt ''Z'', Txt ''Y'', Txt ''Y'', Txt ''Y'']"
    and b: "map (\<lambda>i. cells (rows vacc_example ! i) ''people_vaccinated_per_hundred'')
       [0, 1, 2, 3, 4] = [N (Fin 5), N (Fin 0), N (Fin 8), N (Fin 8), N (Fin 15)]"
    by (simp_all add: vacc_example_def row_of_def)
  from vaccination_speed_is_group_difference [OF ok] n speed_spec_vacc_example
  have c: "map (\<lambda>i. cells (rows vacc' ! i) ''vaccination_speed'') [0, 1, 2, 3, 4] =
       [N (Fin 0), N (Fin 0), N (Fin 3), N (Fin 0), N (Fin 7)]"
    by simp
  show ?thesis
    by (rule exI [of _ covid'], rule exI [of _ vacc']) (intro conjI ok a b c)
qed

section \<open>Columns that the feature builder reads without a check\<close>

lemma validate_vaccination_success:
  assumes "load_and_validate_vaccination df = Inr out"
  shows "out = reset_index_drop
           (df\<lparr>rows := sort_key (sort_rank [''country'', ''date''])
                          (drop_duplicates_last [''country'', ''date''] (rows df))\<rparr>)"
  using assms
  by (auto simp: load_and_validate_vaccination_def sort_values_def bind_err_def
      drop_duplicates_def Let_def split: if_splits sum.splits)

lemma mixed_drop_duplicates_last:
  "mixed (map f (drop_duplicates_last ks rs)) \<Longrightarrow> mixed (map f rs)"
proof -
  have "set (drop_duplicates_last ks rs) \<subseteq> set rs"
    by (induction rs) auto
  then show "mixed (map f (drop_duplicates_last ks rs)) \<Longrightarrow> mixed (map f rs)"
    by (auto simp: mixed_def list_ex_iff)
qed

lemma validate_vaccination_returns:
  assumes "rows df \<noteq> []"
    and "set [''country'', ''date'', ''total_vaccinations''] \<subseteq> set (columns df)"
    and "\<not> mixed (col_vals ''country'' df)"
    and "\<not> mixed (col_vals ''date'' df)"
  shows "\<exists>out. load_and_validate_vaccination df = Inr out"
proof -
  from assms(1,2) have "\<not> df_empty df" by (auto simp: df_empty_def)
  with assms mixed_drop_duplicates_last show ?thesis
    by (auto simp: load_and_validate_vaccination_def sort_values_def bind_err_def
        drop_duplicates_def get_col_def col_vals_def Let_def split: if_splits sum.splits)
qed

lemma create_features_KeyError:
  "''total_deaths'' \<notin> set (columns covid_df) \<Longrightarrow>
   create_features covid_df vacc_df = Inl (KeyError ''total_deaths'')"
  by (simp add: create_features_def add_death_rate_def get_col_def bind_err_def)

lemma features_of_raw_KeyError:
  assumes c: "load_and_validate_covid raw_c = Inr cv"
    and v: "load_and_validate_vaccination raw_v = Inr vv"
    and d: "''total_deaths'' \<notin> set (columns raw_c)"
    and s: "set (columns raw_c) \<inter> set socio_cols = {}"
  shows "features_of_raw raw_c raw_v = Inl (KeyError ''total_deaths'')"
proof -
  obtain cs vs where sel: "select_important_columns cv vv = (cs, vs)"
    by (cases "select_important_columns cv vv")
  have cv: "columns cv = columns raw_c"
    unfolding validate_covid_success [OF c] by (simp add: reset_index_drop_def)
  have cs: "set (columns cs) \<subseteq> set (columns raw_c)"
    using sel by (auto simp: select_important_columns_def Let_def select_cols_def cv)
  have "\<forall>c \<in> set socio_cols. c \<in> set (columns cs) \<longrightarrow> \<not> list_ex is_text (col_vals c cs)"
    using s cs by auto
  from impute_returns [OF this, of vs] obtain ci vi where
    imp: "impute_missing_values cs vs = Inr (ci, vi)"
    by blast
  have "columns ci = columns (fill_values covid_strategies cs)"
    using impute_success(1) [OF imp] by (rule columns_fill_medians)
  then have "''total_deaths'' \<notin> set (columns ci)"
    using d cs by auto
  then have "create_features ci vi = Inl (KeyError ''total_deaths'')"
    by (rule create_features_KeyError)
  then show ?thesis
    by (simp add: features_of_raw_def c v sel imp bind_err_def)
qed

text \<open>
  C2 fails on the code. \<open>total_deaths\<close> is required by no validator and dropped silently
  by the column selection when it is absent, but \<open>create_features\<close> reads it without a
  check: on case data without the column the node raises KeyError, called directly and
  at the end of the chain from the raw tables. (The healthcare index of the same node is
  guarded by a check of its two columns.)
\<close>

theorem create_features_needs_total_deaths:
  "create_features covid_no_deaths vacc_latest = Inl (KeyError ''total_deaths'') \<and>
   features_of_raw covid_no_deaths vacc_latest = Inl (KeyError ''total_deaths'')"
proof
  have d: "''total_deaths'' \<notin> set (columns covid_no_deaths)"
    by (simp add: covid_no_deaths_def)
  then show "create_features covid_no_deaths vacc_latest = Inl (KeyError ''total_deaths'')"
    by (rule create_features_KeyError)
  obtain cv where c: "load_and_validate_covid covid_no_deaths = Inr cv"
    using validate_covid_returns [of covid_no_deaths]
    by (auto simp: covid_no_deaths_def row_of_def mixed_def col_vals_def)
  obtain vv where v: "load_and_validate_vaccination vacc_latest = Inr vv"
    using validate_vaccination_returns [of vacc_latest]
    by (auto simp: vacc_latest_def row_of_def mixed_def col_vals_def)
  have s: "set (columns covid_no_deaths) \<inter> set socio_cols = {}"
    by (simp add: covid_no_deaths_def socio_cols_def)
  show "features_of_raw covid_no_deaths vacc_latest = Inl (KeyError ''total_deaths'')"
    using c v d s by (rule features_of_raw_KeyError)
qed

section \<open>The integrator\<close>

text \<open>
  C1 fails on the code. The integrator does not keep the chronologically last row of a
  country: \<open>groupby("country").last()\<close> takes the last value that is not missing, column
  by column. Country X has the rows (2021-01-01, 10 cases, population 1000) and
  (2021-01-02, 20 cases, population missing); its row in the integrated table has the date
  and the cases of the last row and the population of the first one, a row that is in
  neither input. The join itself is a left join with the suffix pair: country Y, in the
  vaccination data only, is absent.
\<close>

theorem integrate_takes_last_values_not_last_row:
  "(case integrate_datasets covid_latest_gap vacc_latest of
      Inl e \<Rightarrow> ([], [])
    | Inr integrated \<Rightarrow> (columns integrated, show_rows integrated)) =
   ([''country'', ''date_covid'', ''total_cases'', ''population'', ''date_vacc'',
     ''total_vaccinations''],
    [[Txt ''X'', Txt ''2021-01-02'', N (Fin 20), N (Fin 1000), Txt ''2021-01-02'', N (Fin 5)]]) \<and>
   map (cells (rows covid_latest_gap ! 1)) [''country'', ''date'', ''total_cases'', ''population''] =
     [Txt ''X'', Txt ''2021-01-02'', N (Fin 20), NA]"
proof
  show "(case integrate_datasets covid_latest_gap vacc_latest of
      Inl e \<Rightarrow> ([], [])
    | Inr integrated \<Rightarrow> (columns integrated, show_rows integrated)) =
   ([''country'', ''date_covid'', ''total_cases'', ''population'', ''date_vacc'',
     ''total_vaccinations''],
    [[Txt ''X'', Txt ''2021-01-02'', N (Fin 20), N (Fin 1000), Txt ''2021-01-02'', N (Fin 5)]])"
    by code_simp
  show "map (cells (rows covid_latest_gap ! 1))
      [''country'', ''date'', ''total_cases'', ''population''] =
     [Txt ''X'', Txt ''2021-01-02'', N (Fin 20), NA]"
    by (simp add: covid_latest_gap_def row_of_def)
qed

end
